theory Spec2Isabelle
  imports Main "HOL-Library.Sublist"
begin

section \<open>The greeting server of firstWebApp/main.go\<close>

text \<open>
  The program registers one handler for the pattern \<open>/\<close> and calls
  \<open>http.ListenAndServe(":8080", nil)\<close>. The handler writes a literal to the response
  stream with \<open>fmt.Fprintf\<close>, prints the error when the write returns one, and prints the
  byte count.

  The embedding is shallow. The handler and \<open>main\<close> are translated statement by
  statement. What they call in Go's standard library (\<open>fmt\<close>, \<open>io.Writer\<close>, \<open>net/http\<close>) is
  not part of the repository; it is modelled below as far as the program uses it, and the
  outside world (the outcome of the bind, the requests that arrive, what each connection
  answers to a write) is an explicit parameter.
\<close>

subsection \<open>Values of the standard library\<close>

text \<open>A Go \<open>error\<close> value, identified by the text its \<open>Error()\<close> method returns.\<close>

datatype error = Error string

fun ErrorText :: "error \<Rightarrow> string" where
  "ErrorText (Error s) = s"

text \<open>The operands the program passes to the formatting functions: an \<open>int\<close> and an \<open>error\<close>.\<close>

datatype arg = IntArg int | ErrArg error

text \<open>Decimal rendering of an integer, as \<open>%d\<close> and \<open>strconv.Itoa\<close> produce it.\<close>

fun digits :: "nat \<Rightarrow> string" where
  "digits n =
     (if n < 10 then [''0123456789'' ! n]
      else digits (n div 10) @ [''0123456789'' ! (n mod 10)])"

declare digits.simps [simp del]

definition Itoa :: "int \<Rightarrow> string" where
  "Itoa i = (if i < 0 then CHR ''-'' # digits (nat (- i)) else digits (nat i))"

text \<open>
  One operand under one verb. The program uses \<open>%d\<close> on an \<open>int\<close> and \<open>%v\<close> on an
  \<open>error\<close>; \<open>%v\<close> on an \<open>int\<close> and \<open>%s\<close> on an \<open>error\<close> print the same. Go marks a verb the
  operand does not take as \<open>%!verb(type=value)\<close>; the further verbs Go accepts for these
  types are outside the model and end in that branch too. The program reaches none of them.
\<close>

fun printArg :: "char \<Rightarrow> arg \<Rightarrow> string" where
  "printArg verb (IntArg i) =
     (if verb = CHR ''d'' \<or> verb = CHR ''v'' then Itoa i
      else ''%!'' @ [verb] @ ''(int='' @ Itoa i @ '')'')"
| "printArg verb (ErrArg e) =
     (if verb = CHR ''v'' \<or> verb = CHR ''s'' then ErrorText e
      else ''%!'' @ [verb] @ ''(error='' @ ErrorText e @ '')'')"

text \<open>
  The formatting loop of \<open>fmt\<close> (\<open>doPrintf\<close>): bytes other than \<open>%\<close> are copied, \<open>%%\<close> is a
  percent sign, a verb consumes the next operand, a verb without an operand prints
  \<open>%!verb(MISSING)\<close>, and a \<open>%\<close> that ends the format prints \<open>%!(NOVERB)\<close>. Flags, widths
  and the report of surplus operands are not modelled: the program's formats have none.
\<close>

fun doPrintf :: "string \<Rightarrow> arg list \<Rightarrow> string" where
  "doPrintf [] a = []"
| "doPrintf (c # fmt) a =
     (if c \<noteq> CHR ''%'' then c # doPrintf fmt a
      else (case fmt of
              [] \<Rightarrow> ''%!(NOVERB)''
            | verb # rest \<Rightarrow>
                if verb = CHR ''%'' then CHR ''%'' # doPrintf rest a
                else (case a of
                        [] \<Rightarrow> ''%!'' @ [verb] @ ''(MISSING)'' @ doPrintf rest []
                      | x # xs \<Rightarrow> printArg verb x @ doPrintf rest xs)))"

definition Sprintf :: "string \<Rightarrow> arg list \<Rightarrow> string" where
  "Sprintf fmt a = doPrintf fmt a"

text \<open>
  Standard output is the sequence of bytes written to it so far. \<open>fmt.Printf\<close> appends
  the formatted text and nothing else; \<open>fmt.Println\<close> of one string appends the string and
  a newline. The program discards what both return, so a failing write to standard output
  is not modelled.
\<close>

definition Printf :: "string \<Rightarrow> arg list \<Rightarrow> string \<Rightarrow> string" where
  "Printf fmt a out = out @ Sprintf fmt a"

definition Println :: "string \<Rightarrow> string \<Rightarrow> string" where
  "Println s out = out @ s @ [CHR 0x0A]"

subsection \<open>The response stream\<close>

text \<open>
  \<open>http.ResponseWriter\<close> is an interface; the handler uses its \<open>Write\<close> method only,
  through \<open>fmt.Fprintf\<close>. A writer is given by what its implementation answers to
  \<open>Write(p)\<close>: the count \<open>n\<close> and the error, \<open>None\<close> for \<open>nil\<close>. Two ghost fields
  record what happened on the stream: the arguments of the \<open>Write\<close> calls it received, and
  the bytes it accepted (the first \<open>n\<close> of each argument).
\<close>

record ResponseWriter =
  WriteResult :: "string \<Rightarrow> int \<times> error option"
  writes :: "string list"
  sent :: string

definition Write :: "ResponseWriter \<Rightarrow> string \<Rightarrow> (int \<times> error option) \<times> ResponseWriter" where
  "Write w p =
     (WriteResult w p,
      w\<lparr>writes := writes w @ [p], sent := sent w @ take (nat (fst (WriteResult w p))) p\<rparr>)"

text \<open>
  The contract Go documents for \<open>io.Writer\<close>: \<open>0 \<le> n \<le> len(p)\<close>, and a non-nil error
  whenever \<open>n < len(p)\<close>.
\<close>

definition io_Writer_contract :: "ResponseWriter \<Rightarrow> string \<Rightarrow> bool" where
  "io_Writer_contract w p =
     (case WriteResult w p of
        (n, err) \<Rightarrow> 0 \<le> n \<and> n \<le> int (length p) \<and> (n < int (length p) \<longrightarrow> err \<noteq> None))"

text \<open>\<open>fmt.Fprintf\<close> formats into a buffer and hands it to the writer in one \<open>Write\<close>.\<close>

definition Fprintf :: "ResponseWriter \<Rightarrow> string \<Rightarrow> arg list \<Rightarrow> (int \<times> error option) \<times> ResponseWriter" where
  "Fprintf w fmt a = Write w (Sprintf fmt a)"

subsection \<open>The handler\<close>

text \<open>
  An incoming request as the library hands it over, parsed: the parts a handler could look
  at. \<open>URLPath\<close> is the path of the request target, \<open>*\<close> for the target \<open>*\<close>;
  percent escapes in it are not modelled.
\<close>

record Request =
  Method :: string
  URLPath :: string
  Header :: "(string \<times> string) list"
  Body :: string

text \<open>
  The function literal passed to \<open>http.HandleFunc\<close>:
  \<^verbatim>\<open>
  n, err := fmt.Fprintf(w, "Hello, world whatsup")
  if err != nil {
      fmt.Printf("error : %v", err)
  }
  fmt.Println(fmt.Sprintf("Number of bytes written %d" , n))
  \<close>
  It takes the writer, the request and standard output, and returns the writer and
  standard output as it leaves them. The \<open>if\<close> has no \<open>else\<close> and no \<open>return\<close>: the
  \<open>Println\<close> follows on both paths.
\<close>

definition handler :: "ResponseWriter \<Rightarrow> Request \<Rightarrow> string \<Rightarrow> ResponseWriter \<times> string" where
  "handler w r out =
     (case Fprintf w ''Hello, world whatsup'' [] of
        ((n, err), w') \<Rightarrow>
          (let out' = (case err of
                         Some e \<Rightarrow> Printf ''error : %v'' [ErrArg e] out
                       | None \<Rightarrow> out)
           in (w', Println (Sprintf ''Number of bytes written %d'' [IntArg n]) out')))"

subsection \<open>The server\<close>

text \<open>
  A handler as the library calls it. Standard output is global to the process, so it is
  passed in and returned.
\<close>

type_synonym HandlerFunc = "ResponseWriter \<Rightarrow> Request \<Rightarrow> string \<Rightarrow> ResponseWriter \<times> string"

text \<open>
  What the server sent back on one connection. When a handler ran: the writer as the
  handler left it, and the body that went out. The replies the library writes by itself
  are recorded by kind, a redirect with the path it points to; their bytes are not modelled.
\<close>

datatype reply =
    Handled ResponseWriter string
  | MovedPermanently string
  | NotFound
  | BadRequest
  | GlobalOptions

fun reply_body :: "reply \<Rightarrow> string option" where
  "reply_body (Handled w body) = Some body"
| "reply_body (MovedPermanently path) = None"
| "reply_body NotFound = None"
| "reply_body BadRequest = None"
| "reply_body GlobalOptions = None"

text \<open>
  The process as an observer sees it: standard output, the default multiplexer of
  \<open>net/http\<close> (a global of the library: the registered patterns with their handlers), the
  addresses the process asked the system to listen on, and the replies it has given, in
  order. The last two are ghost fields.
\<close>

record process =
  stdout :: string
  DefaultServeMux :: "(string \<times> HandlerFunc) list"
  listened :: "string list"
  served :: "reply list"

text \<open>
  \<open>http.HandleFunc\<close> registers a handler for a pattern in the default multiplexer. It
  panics on an empty pattern and on a pattern that is registered already: \<open>None\<close>.
\<close>

definition HandleFunc :: "string \<Rightarrow> HandlerFunc \<Rightarrow> process \<Rightarrow> process option" where
  "HandleFunc pattern h s =
     (if pattern = [] \<or> pattern \<in> set (map fst (DefaultServeMux s)) then None
      else Some (s\<lparr>DefaultServeMux := DefaultServeMux s @ [(pattern, h)]\<rparr>))"

text \<open>
  A pattern that ends in a slash matches every path it is a prefix of; any other pattern
  matches the equal path only. Among the patterns that match, the longest wins.
\<close>

definition pathMatch :: "string \<Rightarrow> string \<Rightarrow> bool" where
  "pathMatch pattern path =
     (if pattern = [] then False
      else if last pattern \<noteq> CHR ''/'' then pattern = path
      else length pattern \<le> length path \<and> take (length pattern) path = pattern)"

fun mux_match :: "(string \<times> HandlerFunc) list \<Rightarrow> string \<Rightarrow> (string \<times> HandlerFunc) option" where
  "mux_match [] path = None"
| "mux_match ((pattern, h) # mux) path =
     (case mux_match mux path of
        None \<Rightarrow> if pathMatch pattern path then Some (pattern, h) else None
      | Some (pattern', h') \<Rightarrow>
          if pathMatch pattern path \<and> length pattern' < length pattern then Some (pattern, h)
          else Some (pattern', h'))"

text \<open>
  The multiplexer does not match the path of the request as it came. It first brings it
  into canonical form (\<open>cleanPath\<close>, on top of \<open>path.Clean\<close>): a leading slash is added when
  missing, empty elements (doubled slashes) and \<open>.\<close> elements are dropped, a \<open>..\<close> element
  takes the element before it away and is dropped at the root, and a trailing slash
  stays. \<open>elements\<close> cuts a path at its slashes; \<open>resolve\<close> walks the elements with the
  stack of those kept so far, the last one first.
\<close>

fun elements :: "string \<Rightarrow> string \<Rightarrow> string list" where
  "elements cur [] = [cur]"
| "elements cur (c # cs) =
     (if c = CHR ''/'' then cur # elements [] cs else elements (cur @ [c]) cs)"

fun resolve :: "string list \<Rightarrow> string list \<Rightarrow> string list" where
  "resolve kept [] = rev kept"
| "resolve kept (e # es) =
     (if e = [] \<or> e = ''.'' then resolve kept es
      else if e = ''..'' then resolve (case kept of [] \<Rightarrow> [] | k # ks \<Rightarrow> ks) es
      else resolve (e # kept) es)"

fun join :: "string list \<Rightarrow> string" where
  "join [] = []"
| "join [e] = e"
| "join (e # es) = e @ ''/'' @ join es"

text \<open>\<open>path.Clean\<close> on a path that begins with a slash, the only use \<open>cleanPath\<close> makes of it.\<close>

definition Clean :: "string \<Rightarrow> string" where
  "Clean p = CHR ''/'' # join (resolve [] (elements [] p))"

definition cleanPath :: "string \<Rightarrow> string" where
  "cleanPath p =
     (if p = [] then ''/''
      else (let p' = (if hd p \<noteq> CHR ''/'' then CHR ''/'' # p else p);
                np = Clean p'
            in if last p' = CHR ''/'' \<and> np \<noteq> ''/'' then np @ ''/'' else np))"

text \<open>
  A path that is not registered while the same path with a slash appended is: the
  multiplexer redirects to the latter. Patterns that begin with a host name are not
  modelled.
\<close>

definition redirectToPathSlash :: "(string \<times> HandlerFunc) list \<Rightarrow> string \<Rightarrow> bool" where
  "redirectToPathSlash mux path =
     (path \<notin> set (map fst mux) \<and> path \<noteq> [] \<and> last path \<noteq> CHR ''/'' \<and>
      path @ ''/'' \<in> set (map fst mux))"

text \<open>
  Serving one request. \<open>ListenAndServe\<close> was given \<open>nil\<close> for its handler, so the
  library dispatches through the default multiplexer (\<open>serverHandler.ServeHTTP\<close>,
  \<open>ServeMux.ServeHTTP\<close> and \<open>ServeMux.Handler\<close>):
  \<^item> \<open>OPTIONS *\<close> is answered by the server itself, before the multiplexer;
  \<^item> any other request with the target \<open>*\<close> is answered with status 400;
  \<^item> the path is brought into canonical form, except for a \<open>CONNECT\<close> request;
  \<^item> a redirect to the path with a slash appended, when that is what is registered;
  \<^item> a redirect to the canonical path when the path of the request differs from it;
  \<^item> otherwise the handler of the longest matching pattern runs on the request and the
    writer of its connection, or the library answers with status 404 when no pattern
    matches.
  The handler returns no value to the library. When it has returned, the exchange is
  closed with the bytes the writer accepted as the body, but the response to a \<open>HEAD\<close>
  request carries no body: the writer of such a request reports the bytes as written
  and sends none.
\<close>

definition ServeHTTP :: "Request \<Rightarrow> ResponseWriter \<Rightarrow> process \<Rightarrow> process" where
  "ServeHTTP r w s =
     (if Method r = ''OPTIONS'' \<and> URLPath r = ''*''
      then s\<lparr>served := served s @ [GlobalOptions]\<rparr>
      else if URLPath r = ''*'' then s\<lparr>served := served s @ [BadRequest]\<rparr>
      else
        (let path = (if Method r = ''CONNECT'' then URLPath r else cleanPath (URLPath r))
         in if redirectToPathSlash (DefaultServeMux s) path
            then s\<lparr>served := served s @ [MovedPermanently (path @ ''/'')]\<rparr>
            else if path \<noteq> URLPath r
            then s\<lparr>served := served s @ [MovedPermanently path]\<rparr>
            else (case mux_match (DefaultServeMux s) (URLPath r) of
                    Some (pattern, h) \<Rightarrow>
                      (case h w r (stdout s) of
                         (w', out') \<Rightarrow>
                           s\<lparr>stdout := out',
                             served := served s @
                               [Handled w' (if Method r = ''HEAD'' then [] else sent w')]\<rparr>)
                  | None \<Rightarrow> s\<lparr>served := served s @ [NotFound]\<rparr>)))"

text \<open>
  What reaches the listener: a request that the server has read from an accepted
  connection and hands to its handler, with the writer of that connection; or a failure
  of the listener itself that is not temporary.
\<close>

datatype event = Incoming Request ResponseWriter | AcceptError error

text \<open>
  The accept loop of the library. It has no exit of its own: it returns only when the
  listener fails, with that error. On a finite prefix of the events the result \<open>None\<close>
  says that the loop has served the prefix and is blocked waiting for more.
\<close>

fun Serve :: "event list \<Rightarrow> process \<Rightarrow> error option \<times> process" where
  "Serve [] s = (None, s)"
| "Serve (Incoming r w # evs) s = Serve evs (ServeHTTP r w s)"
| "Serve (AcceptError e # evs) s = (Some e, s)"

text \<open>
  The environment of one execution: command line and environment variables, what the
  system answers when asked to listen on an address, and the events at the listener.
\<close>

record environment =
  args :: "string list"
  environ :: "(string \<times> string) list"
  listen :: "string \<Rightarrow> error option"
  events :: "event list"

text \<open>
  \<open>http.ListenAndServe(addr, nil)\<close>: listen on the address; when that fails, return the
  error at once; otherwise run the accept loop and return what it returns.
\<close>

definition ListenAndServe :: "string \<Rightarrow> environment \<Rightarrow> process \<Rightarrow> error option \<times> process" where
  "ListenAndServe addr env s =
     (case listen env addr of
        Some e \<Rightarrow> (Some e, s\<lparr>listened := listened s @ [addr]\<rparr>)
      | None \<Rightarrow> Serve (events env) (s\<lparr>listened := listened s @ [addr]\<rparr>))"

text \<open>
  How an execution stands after the observed events: \<open>main\<close> is still inside
  \<open>ListenAndServe\<close>, or the process has exited with a status.
\<close>

datatype outcome = Serving | Exited int

text \<open>
  \<open>main\<close>:
  \<^verbatim>\<open>
  http.HandleFunc("/", func(w http.ResponseWriter, r *http.Request){ ... })
  http.ListenAndServe(":8080", nil)
  \<close>
  The call of \<open>ListenAndServe\<close> is an expression statement: the error it returns is bound
  to nothing. When the call returns, \<open>main\<close> falls off its end, and a Go process whose
  \<open>main\<close> returns exits with status 0. A panic in \<open>HandleFunc\<close> would end the process with
  status 2. The process starts with nothing printed and nothing registered; \<open>main\<close> reads
  neither the command line nor the environment variables.
\<close>

definition main :: "environment \<Rightarrow> outcome \<times> process" where
  "main env =
     (case HandleFunc ''/'' handler
             \<lparr>stdout = [], DefaultServeMux = [], listened = [], served = []\<rparr> of
        None \<Rightarrow> (Exited 2, \<lparr>stdout = [], DefaultServeMux = [], listened = [], served = []\<rparr>)
      | Some s \<Rightarrow>
          (case ListenAndServe '':8080'' env s of
             (None, s') \<Rightarrow> (Serving, s')
           | (Some e, s') \<Rightarrow> (Exited 0, s')))"

subsection \<open>Observations and concrete executions\<close>

text \<open>The literal of the handler, as it is written in the source.\<close>

abbreviation greeting :: string where
  "greeting \<equiv> ''Hello, world whatsup''"

text \<open>The multiplexer holds what \<open>main\<close> registered: the handler, for the pattern \<open>/\<close>.\<close>

definition registered :: "process \<Rightarrow> bool" where
  "registered s = (DefaultServeMux s = [(''/'', handler)])"

text \<open>
  The requests the multiplexer hands to a handler registered for \<open>/\<close>: the target is not
  \<open>*\<close>, the path is in canonical form already or the method is \<open>CONNECT\<close>, and the pattern
  matches the path.
\<close>

definition dispatched :: "Request \<Rightarrow> bool" where
  "dispatched r =
     (URLPath r \<noteq> ''*'' \<and>
      (Method r = ''CONNECT'' \<or> cleanPath (URLPath r) = URLPath r) \<and>
      pathMatch ''/'' (URLPath r))"

text \<open>A sequence of events in which the listener never fails: requests only.\<close>

definition requests_only :: "event list \<Rightarrow> bool" where
  "requests_only evs =
     list_all (\<lambda>ev. case ev of Incoming r w \<Rightarrow> True | AcceptError e \<Rightarrow> False) evs"

text \<open>
  Concrete inputs for the instances below: a connection that accepts every write, one
  whose peer is gone, four requests, the process as it is when it has just started to
  listen, and three environments: the port is free, the port is taken, and the port is
  free but the listener fails after the first request.
\<close>

definition healthy :: ResponseWriter where
  "healthy = \<lparr>WriteResult = (\<lambda>p. (int (length p), None)), writes = [], sent = []\<rparr>"

definition broken :: ResponseWriter where
  "broken = \<lparr>WriteResult = (\<lambda>p. (0, Some (Error ''broken pipe''))), writes = [], sent = []\<rparr>"

definition get_root :: Request where
  "get_root = \<lparr>Method = ''GET'', URLPath = ''/'', Header = [], Body = []\<rparr>"

definition post_form :: Request where
  "post_form = \<lparr>Method = ''POST'', URLPath = ''/submit'',
     Header = [(''Content-Type'', ''text/plain'')], Body = ''x=1''\<rparr>"

definition head_root :: Request where
  "head_root = \<lparr>Method = ''HEAD'', URLPath = ''/'', Header = [], Body = []\<rparr>"

definition get_double_slash :: Request where
  "get_double_slash = \<lparr>Method = ''GET'', URLPath = ''//x'', Header = [], Body = []\<rparr>"

definition listening :: process where
  "listening =
     \<lparr>stdout = [], DefaultServeMux = [(''/'', handler)], listened = ['':8080''], served = []\<rparr>"

definition port_free :: environment where
  "port_free = \<lparr>args = [''firstWebApp'', ''-addr=:9090''], environ = [(''PORT'', ''9090'')],
     listen = (\<lambda>addr. None),
     events = [Incoming get_root broken, Incoming post_form healthy]\<rparr>"

definition port_taken :: environment where
  "port_taken = \<lparr>args = [''firstWebApp''], environ = [],
     listen = (\<lambda>addr. Some (Error ''listen tcp :8080: bind: address already in use'')),
     events = [Incoming get_root healthy]\<rparr>"

definition listener_fails :: environment where
  "listener_fails = \<lparr>args = [''firstWebApp''], environ = [],
     listen = (\<lambda>addr. None),
     events = [Incoming get_root healthy,
       AcceptError (Error ''accept tcp [::]:8080: use of closed network connection''),
       Incoming get_root healthy]\<rparr>"

section \<open>Auxiliary facts\<close>

text \<open>The three formats of the program, evaluated.\<close>

lemma Sprintf_greeting: "Sprintf ''Hello, world whatsup'' [] = greeting"
  by (simp add: Sprintf_def)

lemma Sprintf_error: "Sprintf ''error : %v'' [ErrArg e] = ''error : '' @ ErrorText e"
  by (simp add: Sprintf_def)

lemma Sprintf_count:
  "Sprintf ''Number of bytes written %d'' [IntArg n] = ''Number of bytes written '' @ Itoa n"
  by (simp add: Sprintf_def)

lemma Itoa_20: "Itoa 20 = ''20''"
  by (simp add: Itoa_def digits.simps)

lemma Itoa_0: "Itoa 0 = ''0''"
  by (simp add: Itoa_def digits.simps)

text \<open>The handler in one equation: what it leaves on the stream and on standard output.\<close>

lemma handler_eq:
  "handler w r out =
     (snd (Write w greeting),
      out @ (case snd (WriteResult w greeting) of None \<Rightarrow> [] | Some e \<Rightarrow> ''error : '' @ ErrorText e)
          @ ''Number of bytes written '' @ Itoa (fst (WriteResult w greeting)) @ [CHR 0x0A])"
  by (simp add: handler_def Fprintf_def Sprintf_greeting Sprintf_error Sprintf_count
      Write_def Printf_def Println_def split: prod.splits option.splits)

text \<open>The pattern \<open>/\<close> matches every path that begins with a slash.\<close>

lemma pathMatch_root: "pathMatch ''/'' p = (\<exists>q. p = CHR ''/'' # q)"
  by (cases p) (simp_all add: pathMatch_def)

text \<open>Canonical forms of the paths used below.\<close>

lemma cleanPath_root: "cleanPath ''/'' = ''/''"
  by (simp add: cleanPath_def Clean_def)

lemma cleanPath_submit: "cleanPath ''/submit'' = ''/submit''"
  by (simp add: cleanPath_def Clean_def)

lemma cleanPath_double_slash: "cleanPath ''//x'' = ''/x''"
  by (simp add: cleanPath_def Clean_def)

lemma cleanPath_dot_dot: "cleanPath ''/a/../b'' = ''/b''"
  by (simp add: cleanPath_def Clean_def)

lemma dispatched_samples: "dispatched get_root" "dispatched post_form" "dispatched head_root"
  by (simp_all add: dispatched_def get_root_def post_form_def head_root_def
      cleanPath_root cleanPath_submit pathMatch_def)

text \<open>The registration in \<open>main\<close> does not panic.\<close>

lemma HandleFunc_root:
  "HandleFunc ''/'' handler \<lparr>stdout = [], DefaultServeMux = [], listened = [], served = []\<rparr> =
     Some \<lparr>stdout = [], DefaultServeMux = [(''/'', handler)], listened = [], served = []\<rparr>"
  by (simp add: HandleFunc_def)

text \<open>With the registration of \<open>main\<close>, no path is redirected to itself with a slash added.\<close>

lemma no_redirectToPathSlash: "\<not> redirectToPathSlash [(''/'', handler)] path"
  by (cases path) (simp_all add: redirectToPathSlash_def)

text \<open>The dispatch with the registration of \<open>main\<close>, case by case.\<close>

lemma ServeHTTP_eq:
  "registered s \<Longrightarrow>
     ServeHTTP r w s =
       (if URLPath r = ''*''
        then s\<lparr>served := served s @
               [if Method r = ''OPTIONS'' then GlobalOptions else BadRequest]\<rparr>
        else if Method r \<noteq> ''CONNECT'' \<and> cleanPath (URLPath r) \<noteq> URLPath r
        then s\<lparr>served := served s @ [MovedPermanently (cleanPath (URLPath r))]\<rparr>
        else if pathMatch ''/'' (URLPath r)
        then s\<lparr>stdout := snd (handler w r (stdout s)),
               served := served s @
                 [Handled (snd (Write w greeting))
                    (if Method r = ''HEAD'' then [] else sent (snd (Write w greeting)))]\<rparr>
        else s\<lparr>served := served s @ [NotFound]\<rparr>)"
  by (simp add: ServeHTTP_def registered_def no_redirectToPathSlash handler_eq Let_def)

lemma ServeHTTP_dispatched:
  "registered s \<Longrightarrow> dispatched r \<Longrightarrow>
     ServeHTTP r w s =
       s\<lparr>stdout := snd (handler w r (stdout s)),
         served := served s @
           [Handled (snd (Write w greeting))
              (if Method r = ''HEAD'' then [] else sent (snd (Write w greeting)))]\<rparr>"
  by (auto simp add: ServeHTTP_eq dispatched_def)

text \<open>Serving a request adds one reply and leaves multiplexer and listener alone.\<close>

lemma ServeHTTP_frame:
  "DefaultServeMux (ServeHTTP r w s) = DefaultServeMux s \<and>
   listened (ServeHTTP r w s) = listened s \<and>
   length (served (ServeHTTP r w s)) = Suc (length (served s))"
  by (simp add: ServeHTTP_def Let_def split: option.splits prod.splits)

lemma registered_ServeHTTP: "registered (ServeHTTP r w s) = registered s"
  by (simp add: registered_def ServeHTTP_frame)

lemma registered_Serve: "registered (snd (Serve evs s)) = registered s"
  by (induction evs s rule: Serve.induct) (simp_all add: registered_ServeHTTP)

lemma listened_Serve: "listened (snd (Serve evs s)) = listened s"
  by (induction evs s rule: Serve.induct) (simp_all add: ServeHTTP_frame)

text \<open>The reply to a request does not depend on what the process has served or printed.\<close>

lemma reply_independent:
  "registered s \<Longrightarrow> registered s' \<Longrightarrow>
     last (served (ServeHTTP r w s)) = last (served (ServeHTTP r w s'))"
  by (simp add: ServeHTTP_eq)

text \<open>While only requests arrive, the accept loop does not return; otherwise it does.\<close>

lemma Serve_requests_only: "requests_only evs \<Longrightarrow> fst (Serve evs s) = None"
  by (induction evs s rule: Serve.induct) (simp_all add: requests_only_def)

lemma Serve_listener_failed: "\<not> requests_only evs \<Longrightarrow> fst (Serve evs s) \<noteq> None"
  by (induction evs s rule: Serve.induct) (simp_all add: requests_only_def)

lemma Serve_append:
  "requests_only evs \<Longrightarrow> Serve (evs @ evs') s = Serve evs' (snd (Serve evs s))"
  by (induction evs s rule: Serve.induct) (simp_all add: requests_only_def)

lemma served_Serve_length:
  "requests_only evs \<Longrightarrow> length (served (snd (Serve evs s))) = length (served s) + length evs"
  by (induction evs s rule: Serve.induct) (simp_all add: requests_only_def ServeHTTP_frame)

lemma Serve_snoc:
  "requests_only evs \<Longrightarrow>
     Serve (evs @ [Incoming r w]) s = (None, ServeHTTP r w (snd (Serve evs s)))"
  by (simp add: Serve_append)

text \<open>The two ways \<open>main\<close> can go at the bind.\<close>

lemma main_bind_failed:
  "listen env '':8080'' = Some e \<Longrightarrow>
     main env =
       (Exited 0,
        \<lparr>stdout = [], DefaultServeMux = [(''/'', handler)], listened = ['':8080''], served = []\<rparr>)"
  by (simp add: main_def HandleFunc_root ListenAndServe_def)

lemma main_bind_ok:
  "listen env '':8080'' = None \<Longrightarrow>
     main env =
       (case Serve (events env) listening of
          (None, s) \<Rightarrow> (Serving, s)
        | (Some e, s) \<Rightarrow> (Exited 0, s))"
  by (simp add: main_def HandleFunc_root ListenAndServe_def listening_def)

section \<open>The claims of the specification\<close>

subsection \<open>The handler\<close>




text \<open>
  The literal has 20 bytes, not 21: on a connection that accepts the write the handler
  logs 20.
\<close>

theorem logged_count_not_21:
  "io_Writer_contract healthy greeting \<and> snd (WriteResult healthy greeting) = None \<and>
   snd (handler healthy get_root []) = ''Number of bytes written 20'' @ [CHR 0x0A] \<and>
   length greeting \<noteq> 21"
  by (simp add: io_Writer_contract_def healthy_def handler_eq Itoa_20)

text \<open>
  Claim C2, with the length as it is. When the write succeeds (the error is \<open>nil\<close>, the
  writer keeping the contract of \<open>io.Writer\<close>), the count the handler logs is the length of
  the literal, and that length is 20 bytes.
\<close>

theorem logged_count_is_length_20:
  "io_Writer_contract w greeting \<Longrightarrow> snd (WriteResult w greeting) = None \<Longrightarrow>
     snd (handler w r out) =
       out @ ''Number of bytes written '' @ Itoa (int (length greeting)) @ [CHR 0x0A] \<and>
     Itoa (int (length greeting)) = ''20'' \<and> length greeting = 20"
  by (cases "WriteResult w greeting") (auto simp add: io_Writer_contract_def handler_eq Itoa_20)

theorem logged_count_is_length_20_witness:
  "io_Writer_contract healthy greeting \<and> snd (WriteResult healthy greeting) = None \<and>
   snd (handler healthy post_form ''log: '') = ''log: Number of bytes written 20'' @ [CHR 0x0A]"
  using logged_count_is_length_20 [of healthy post_form "''log: ''"]
  by (simp add: io_Writer_contract_def healthy_def)

text \<open>
  The byte-count line is not reserved to successful writes: on a connection whose write
  fails with no byte accepted, the output of the handler still holds
  \<open>Number of bytes written 0\<close>.
\<close>

theorem count_line_after_failed_write:
  "snd (WriteResult broken greeting) \<noteq> None \<and>
   sublist ''Number of bytes written 0'' (snd (handler broken get_root []))"
proof -
  have "snd (handler broken get_root []) =
          ''error : broken pipe'' @ ''Number of bytes written 0'' @ [CHR 0x0A]"
    by (simp add: handler_eq broken_def Itoa_0)
  then show ?thesis
    by (simp only: sublist_appendI) (simp add: broken_def)
qed

text \<open>
  Claim C3, as the code has it. In every invocation the handler appends to standard
  output the message \<open>error : \<close> followed by the error exactly when the write returns an
  error, and then, on successful and failed writes alike, the line
  \<open>Number of bytes written n\<close> with the count the write returned.
\<close>

theorem handler_log_lines:
  "snd (handler w r out) =
     out @ (case snd (WriteResult w greeting) of
              None \<Rightarrow> []
            | Some e \<Rightarrow> ''error : '' @ ErrorText e)
         @ ''Number of bytes written '' @ Itoa (fst (WriteResult w greeting)) @ [CHR 0x0A]"
  by (simp add: handler_eq)

theorem handler_log_lines_witness:
  "snd (handler broken get_root []) = ''error : broken pipeNumber of bytes written 0'' @ [CHR 0x0A] \<and>
   snd (handler healthy get_root []) = ''Number of bytes written 20'' @ [CHR 0x0A]"
  using handler_log_lines [of broken get_root "[]"] handler_log_lines [of healthy get_root "[]"]
  by (simp add: broken_def healthy_def Itoa_0 Itoa_20)

text \<open>
  Claim C7. Every log message goes to standard output as a newline-terminated line, and a
  failed write gives the message \<open>error : \<close> followed by the error. The message has that
  form, but it is no line of its own: \<open>fmt.Printf\<close> prints it with a format that has no
  newline, while the byte count goes through \<open>fmt.Println\<close>. On a write that fails with
  \<open>broken pipe\<close> and no byte accepted, standard output receives the two messages run
  together on one line.
\<close>

theorem error_message_runs_into_count_line:
  "snd (handler broken get_root []) =
     ''error : broken pipe'' @ ''Number of bytes written 0'' @ [CHR 0x0A]"
  by (simp add: handler_eq broken_def Itoa_0)

text \<open>
  Claim C9. The handler never looks at the request: for any two requests, the same writer
  and the same standard output give the same response stream and the same log output.
\<close>

theorem handler_ignores_request:
  "handler w r1 out = handler w r2 out"
  by (simp add: handler_eq)

theorem handler_ignores_request_witness:
  "get_root \<noteq> post_form \<and>
   sent (fst (handler healthy get_root [])) = sent (fst (handler healthy post_form [])) \<and>
   snd (handler broken get_root []) = snd (handler broken post_form [])"
  using handler_ignores_request [of healthy get_root "[]" post_form]
    handler_ignores_request [of broken get_root "[]" post_form]
  by (simp add: get_root_def post_form_def)

subsection \<open>The server\<close>

text \<open>
  Not every request that follows a failed write gets the literal as its body: after a
  write that failed, a \<open>HEAD\<close> of \<open>/\<close> is answered without a body and a \<open>GET\<close> of \<open>//x\<close>
  with the redirect of the multiplexer, as they would be at any other time.
\<close>

theorem later_requests_without_greeting_body:
  "snd (WriteResult broken greeting) \<noteq> None \<and>
   fst (Serve [Incoming get_root broken, Incoming head_root healthy,
               Incoming get_double_slash healthy] listening) = None \<and>
   map reply_body (served (snd (Serve [Incoming get_root broken, Incoming head_root healthy,
               Incoming get_double_slash healthy] listening))) = [Some [], Some [], None] \<and>
   last (served (snd (Serve [Incoming get_root broken, Incoming head_root healthy,
               Incoming get_double_slash healthy] listening))) = MovedPermanently ''/x''"
proof -
  have reg: "registered listening"
    by (simp add: registered_def listening_def)
  have fields: "served listening = []" "sent broken = []" "sent healthy = []"
    "fst (WriteResult broken greeting) = 0" "Method get_root \<noteq> ''HEAD''"
    "Method head_root = ''HEAD''"
    by (simp_all add: listening_def broken_def healthy_def get_root_def head_root_def)
  have first: "served (ServeHTTP get_root broken listening) =
      [Handled (snd (Write broken greeting)) []]"
    by (simp add: ServeHTTP_dispatched [OF reg] dispatched_samples fields Write_def)
  have reg1: "registered (ServeHTTP get_root broken listening)"
    by (simp add: registered_ServeHTTP reg)
  have second: "served (ServeHTTP head_root healthy (ServeHTTP get_root broken listening)) =
      [Handled (snd (Write broken greeting)) [], Handled (snd (Write healthy greeting)) []]"
    by (simp add: ServeHTTP_dispatched [OF reg1] dispatched_samples fields first)
  have reg2: "registered (ServeHTTP head_root healthy (ServeHTTP get_root broken listening))"
    by (simp add: registered_ServeHTTP reg)
  have third: "served (ServeHTTP get_double_slash healthy
      (ServeHTTP head_root healthy (ServeHTTP get_root broken listening))) =
      [Handled (snd (Write broken greeting)) [], Handled (snd (Write healthy greeting)) [],
       MovedPermanently ''/x'']"
    by (simp add: ServeHTTP_eq [OF reg2] second)
       (simp add: get_double_slash_def cleanPath_double_slash)
  have failed: "snd (WriteResult broken greeting) \<noteq> None"
    by (simp add: broken_def)
  from failed third show ?thesis
    by simp
qed

text \<open>
  Claim C4, with the later request taken as it would be served at any time. A failed
  write stays inside its invocation. It is logged; the accept loop goes on; a later
  request, after any number of requests in between, gets the reply it would have got had
  the failing request never arrived; and that reply has the complete literal as its body
  when the later request is handed to the handler, is not a \<open>HEAD\<close>, and its own connection
  accepts the write.
\<close>

theorem write_failure_is_contained:
  assumes reg: "registered s"
    and fail: "snd (WriteResult w1 greeting) = Some e"
    and d1: "dispatched r1"
    and mid: "requests_only mid"
  shows "stdout (snd (Serve [Incoming r1 w1] s)) =
           stdout s @ ''error : '' @ ErrorText e @
           ''Number of bytes written '' @ Itoa (fst (WriteResult w1 greeting)) @ [CHR 0x0A] \<and>
         fst (Serve (Incoming r1 w1 # mid @ [Incoming r2 w2]) s) = None \<and>
         last (served (snd (Serve (Incoming r1 w1 # mid @ [Incoming r2 w2]) s))) =
           last (served (snd (Serve (mid @ [Incoming r2 w2]) s))) \<and>
         (dispatched r2 \<and> Method r2 \<noteq> ''HEAD'' \<and>
          fst (WriteResult w2 greeting) = int (length greeting) \<longrightarrow>
            reply_body (last (served (snd (Serve (Incoming r1 w1 # mid @ [Incoming r2 w2]) s)))) =
              Some (sent w2 @ greeting))"
proof -
  let ?after = "snd (Serve mid (ServeHTTP r1 w1 s))"
  let ?alone = "snd (Serve mid s)"
  have reg_after: "registered ?after"
    using reg by (simp add: registered_Serve registered_ServeHTTP)
  have reg_alone: "registered ?alone"
    using reg by (simp add: registered_Serve)
  have logged: "stdout (snd (Serve [Incoming r1 w1] s)) =
      stdout s @ ''error : '' @ ErrorText e @
      ''Number of bytes written '' @ Itoa (fst (WriteResult w1 greeting)) @ [CHR 0x0A]"
    using reg fail d1 by (simp add: ServeHTTP_dispatched handler_eq)
  have run: "Serve (Incoming r1 w1 # mid @ [Incoming r2 w2]) s = (None, ServeHTTP r2 w2 ?after)"
    using mid by (simp add: Serve_snoc)
  have run_alone: "Serve (mid @ [Incoming r2 w2]) s = (None, ServeHTTP r2 w2 ?alone)"
    using mid by (simp add: Serve_snoc)
  have same: "last (served (ServeHTTP r2 w2 ?after)) = last (served (ServeHTTP r2 w2 ?alone))"
    by (rule reply_independent [OF reg_after reg_alone])
  have whole: "reply_body (last (served (ServeHTTP r2 w2 ?after))) = Some (sent w2 @ greeting)"
    if "dispatched r2" and "Method r2 \<noteq> ''HEAD''"
      and "fst (WriteResult w2 greeting) = int (length greeting)"
    using that by (simp add: ServeHTTP_dispatched [OF reg_after] Write_def)
  from logged run run_alone same whole show ?thesis
    by simp
qed

theorem write_failure_is_contained_witness:
  "stdout (snd (Serve [Incoming get_root broken] listening)) =
     ''error : broken pipeNumber of bytes written 0'' @ [CHR 0x0A] \<and>
   fst (Serve [Incoming get_root broken, Incoming get_root healthy, Incoming post_form healthy]
     listening) = None \<and>
   reply_body (last (served (snd (Serve
     [Incoming get_root broken, Incoming get_root healthy, Incoming post_form healthy]
     listening)))) = Some greeting"
proof -
  have reg: "registered listening"
    by (simp add: registered_def listening_def)
  have fail: "snd (WriteResult broken greeting) = Some (Error ''broken pipe'')"
    by (simp add: broken_def)
  have d1: "dispatched get_root" and d2: "dispatched post_form"
    by (rule dispatched_samples)+
  have mid: "requests_only [Incoming get_root healthy]"
    by (simp add: requests_only_def)
  have post: "Method post_form \<noteq> ''HEAD''"
    by (simp add: post_form_def)
  have ok2: "fst (WriteResult healthy greeting) = int (length greeting)"
    by (simp add: healthy_def)
  have n: "fst (WriteResult broken greeting) = 0" and out: "stdout listening = []"
    and none: "sent healthy = []"
    by (simp_all add: broken_def listening_def healthy_def)
  note contained = write_failure_is_contained [OF reg fail d1 mid, of post_form healthy]
  have logged: "stdout (snd (Serve [Incoming get_root broken] listening)) =
      ''error : broken pipeNumber of bytes written 0'' @ [CHR 0x0A]"
    using contained [THEN conjunct1] by (simp add: n out Itoa_0)
  have running: "fst (Serve
      [Incoming get_root broken, Incoming get_root healthy, Incoming post_form healthy]
      listening) = None"
    using contained [THEN conjunct2, THEN conjunct1] by simp
  have whole: "reply_body (last (served (snd (Serve
      [Incoming get_root broken, Incoming get_root healthy, Incoming post_form healthy]
      listening)))) = Some greeting"
    using contained [THEN conjunct2, THEN conjunct2, THEN conjunct2] d2 post ok2
    by (simp add: none)
  from logged running whole show ?thesis by (intro conjI)
qed

text \<open>
  Claim C5. When the bind fails, the process ends: \<open>main\<close> is no longer serving, the
  system was asked to listen once and never again, and no connection was served, whatever
  requests were waiting.
\<close>

theorem bind_failure_serves_nothing:
  "listen env '':8080'' = Some e \<Longrightarrow>
     fst (main env) \<noteq> Serving \<and>
     listened (snd (main env)) = ['':8080''] \<and>
     served (snd (main env)) = []"
  by (simp add: main_bind_failed)

theorem bind_failure_serves_nothing_witness:
  "listen port_taken '':8080'' \<noteq> None \<and> events port_taken \<noteq> [] \<and>
   fst (main port_taken) \<noteq> Serving \<and>
   listened (snd (main port_taken)) = ['':8080''] \<and> served (snd (main port_taken)) = []"
  using bind_failure_serves_nothing
    [of port_taken "Error ''listen tcp :8080: bind: address already in use''"]
  by (simp add: port_taken_def)

text \<open>
  Claim C6. The error of a failed bind is dropped: \<open>main\<close> returns, the exit status is 0
  and nothing was printed, whatever the error was.
\<close>

theorem bind_failure_exit_silent:
  "listen env '':8080'' = Some e \<Longrightarrow> fst (main env) = Exited 0 \<and> stdout (snd (main env)) = []"
  by (simp add: main_bind_failed)

theorem bind_failure_exit_silent_witness:
  "listen port_taken '':8080'' = Some (Error ''listen tcp :8080: bind: address already in use'') \<and>
   fst (main port_taken) = Exited 0 \<and> stdout (snd (main port_taken)) = []"
  using bind_failure_exit_silent
    [of port_taken "Error ''listen tcp :8080: bind: address already in use''"]
  by (simp add: port_taken_def)

text \<open>
  Claim C8. In every execution the one address the program listens on is \<open>:8080\<close>,
  whatever the command line, the environment variables, the outcome of the bind and the
  requests are; and changing the command line and the environment variables changes
  nothing in the execution.
\<close>

theorem listening_address_fixed:
  "listened (snd (main env)) = ['':8080''] \<and>
   main (env\<lparr>args := a, environ := v\<rparr>) = main env"
proof -
  have fixed: "listened (snd (main env)) = ['':8080'']"
  proof (cases "listen env '':8080''")
    case None
    obtain err s where run: "Serve (events env) listening = (err, s)"
      by (cases "Serve (events env) listening")
    from listened_Serve [of "events env" listening] run
    have "listened s = ['':8080'']"
      by (simp add: listening_def)
    with None run show ?thesis
      by (cases err) (simp_all add: main_bind_ok)
  next
    case (Some e)
    then show ?thesis
      by (simp add: main_bind_failed)
  qed
  have "ListenAndServe addr (env\<lparr>args := a, environ := v\<rparr>) s = ListenAndServe addr env s"
    for addr s
    by (simp add: ListenAndServe_def split: option.splits)
  then have unread: "main (env\<lparr>args := a, environ := v\<rparr>) = main env"
    by (simp add: main_def HandleFunc_root)
  from fixed unread show ?thesis ..
qed

text \<open>An execution started with an address on the command line and a port in the environment.\<close>

theorem listening_address_fixed_witness:
  "args port_free = [''firstWebApp'', ''-addr=:9090''] \<and>
   environ port_free = [(''PORT'', ''9090'')] \<and>
   listened (snd (main port_free)) = ['':8080''] \<and>
   listened (snd (main port_taken)) = ['':8080'']"
  using listening_address_fixed [of port_free] listening_address_fixed [of port_taken]
  by (simp add: port_free_def)

text \<open>
  A successful bind does not keep the program in the serving state for ever: when the
  listener fails after the first request, \<open>ListenAndServe\<close> returns, \<open>main\<close> returns, and
  the process has exited with status 0, the request after the failure unserved.
\<close>

theorem bound_server_exits_on_listener_failure:
  "listen listener_fails '':8080'' = None \<and>
   fst (main listener_fails) = Exited 0 \<and>
   length (served (snd (main listener_fails))) = 1"
proof -
  have reg: "registered listening"
    by (simp add: registered_def listening_def)
  have "Serve (events listener_fails) listening = (Some (Error
      ''accept tcp [::]:8080: use of closed network connection''),
      ServeHTTP get_root healthy listening)"
    by (simp add: listener_fails_def)
  moreover have "length (served (ServeHTTP get_root healthy listening)) = 1"
    by (simp add: ServeHTTP_frame listening_def)
  moreover have "listen listener_fails '':8080'' = None"
    by (simp add: listener_fails_def)
  ultimately show ?thesis
    by (simp add: main_bind_ok)
qed

text \<open>
  Claim C10, with the listener taken into account. In an execution in which the bind
  succeeds, the program is in the serving state exactly as long as the listener does not
  fail: while only requests arrive, whatever their number, every one of them is answered
  and the program is still serving after the last one, and no step of the handler or of
  \<open>main\<close> takes it out of that state. A failure of the listener makes \<open>ListenAndServe\<close>
  return, and the process exits with status 0.
\<close>

theorem serving_never_exits:
  "listen env '':8080'' = None \<Longrightarrow>
     fst (main env) = (if requests_only (events env) then Serving else Exited 0) \<and>
     (requests_only (events env) \<longrightarrow>
        length (served (snd (main env))) = length (events env))"
proof -
  assume bound: "listen env '':8080'' = None"
  obtain err s where run: "Serve (events env) listening = (err, s)"
    by (cases "Serve (events env) listening")
  show ?thesis
  proof (cases "requests_only (events env)")
    case True
    from Serve_requests_only [OF True, of listening] run have blocked: "err = None"
      by simp
    from served_Serve_length [OF True, of listening] run
    have all_served: "length (served s) = length (events env)"
      by (simp add: listening_def)
    from bound run blocked all_served True show ?thesis
      by (simp add: main_bind_ok)
  next
    case False
    from Serve_listener_failed [OF False, of listening] run obtain e where "err = Some e"
      by auto
    with bound run False show ?thesis
      by (simp add: main_bind_ok)
  qed
qed

theorem serving_never_exits_witness:
  "listen port_free '':8080'' = None \<and> requests_only (events port_free) \<and>
   fst (main port_free) = Serving \<and> length (served (snd (main port_free))) = 2"
  using serving_never_exits [of port_free]
  by (simp add: port_free_def requests_only_def)

end
